theory Spec2Isabelle
  imports Main "HOL-Library.Word"
begin

section \<open>The OPC UA server of server.go\<close>

text \<open>
  A shallow embedding of \<^verbatim>\<open>server.go\<close>: the \<^verbatim>\<open>Server\<close> struct, its constructor,
  \<^verbatim>\<open>ListenAndServe\<close>, the accept loop \<^verbatim>\<open>serve\<close>, the per-connection loop
  \<^verbatim>\<open>handle\<close> with its two built-in handlers, \<^verbatim>\<open>Close\<close> and
  \<^verbatim>\<open>ResponseWriter.Send\<close>.

  The packages \<^verbatim>\<open>uacp\<close>, \<^verbatim>\<open>uasc\<close>, \<^verbatim>\<open>ua\<close> and \<^verbatim>\<open>debug\<close> are outside the
  sources. What they return is a script supplied by the environment (the results of the
  successive \<^verbatim>\<open>Accept\<close> and \<^verbatim>\<open>Receive\<close> calls); what the server calls on them is
  recorded as a trace of events. The context argument \<^verbatim>\<open>ctx\<close> only flows into
  \<^verbatim>\<open>Accept\<close> and \<^verbatim>\<open>Receive\<close>, whose results the script already fixes, so it is
  not a parameter of the model. A call that blocks for ever (the script has run out) and
  a nil-pointer panic are outcomes of their own.
\<close>

subsection \<open>Data\<close>

type_synonym uint32 = "32 word"

datatype error = Error string

text \<open>\<^verbatim>\<open>uacp.Acknowledge\<close>: the four handshake parameters, each a 32-bit unsigned value.\<close>

record Acknowledge =
  ReceiveBufSize :: uint32
  SendBufSize :: uint32
  MaxMessageSize :: uint32
  MaxChunkCount :: uint32

text \<open>
  \<^verbatim>\<open>ua.ApplicationDescription\<close>. The two fields that the source leaves commented out in
  its literals keep Go's zero value.
\<close>

record ApplicationDescription =
  ApplicationURI :: string
  ProductURI :: string
  ApplicationName :: string
  ApplicationType :: nat
  GatewayServerURI :: string
  DiscoveryProfileURI :: string
  DiscoveryURLs :: "string list"

text \<open>\<^verbatim>\<open>uasc.Config\<close>, the fields that server.go reads.\<close>

record Config =
  SecurityMode :: nat
  SecurityPolicyURI :: string

text \<open>
  \<^verbatim>\<open>uasc.SessionConfig\<close>, the field that server.go reads. \<^verbatim>\<open>ClientDescription\<close> is read
  through (\<^verbatim>\<open>s.sessionCfg.ClientDescription.ApplicationURI\<close>); it is taken to be a
  pointer, which may be nil.
\<close>

record SessionConfig =
  ClientDescription :: "ApplicationDescription option"

text \<open>\<^verbatim>\<open>ua.EndpointDescription\<close>, as the literal in \<^verbatim>\<open>handleGetEndpoints\<close> fills it.\<close>

record EndpointDescription =
  EndpointURL :: string
  EndpointServer :: "ApplicationDescription option"
  ServerCertificate :: "8 word list"
  EndpointSecurityMode :: nat
  EndpointSecurityPolicyURI :: string
  UserIdentityTokens :: "unit list"
  TransportProfileURI :: string
  SecurityLevel :: "8 word"

text \<open>
  The value \<^verbatim>\<open>msg.V\<close> of a decoded message, as the type switch of \<^verbatim>\<open>handle\<close> sees it:
  one of the two request types it names, or anything else (another type, or the nil
  interface value), which the switch sends to its default branch. The request structs are
  codec types; their content is the type parameter \<open>'r\<close>.
\<close>

datatype 'r payload =
    FindServersRequest 'r
  | GetEndpointsRequest 'r
  | OtherType 'r

text \<open>\<^verbatim>\<open>uasc.Message\<close>: the decoded value and the error of the receive.\<close>

record 'r Message =
  V :: "'r payload"
  Err :: "error option"

datatype response =
    FindServersResponse (Servers: "ApplicationDescription list")
  | GetEndpointsResponse (Endpoints: "EndpointDescription list")

text \<open>
  A secure channel is the list of results that its successive \<^verbatim>\<open>Receive\<close> calls
  yield; when the list is used up, \<^verbatim>\<open>Receive\<close> blocks.
\<close>

type_synonym 'r SecureChannel = "'r Message list"

text \<open>
  A transport connection: its id (\<^verbatim>\<open>c.ID()\<close>) and what \<^verbatim>\<open>uasc.NewSecureChannel\<close>
  returns on it. The endpoint URL and the configuration that the server passes to that
  call are recorded in the trace.
\<close>

record 'r Conn =
  ID :: uint32
  secure :: "error + 'r SecureChannel"

text \<open>
  A listener: the results of its successive \<^verbatim>\<open>Accept\<close> calls (when used up,
  \<^verbatim>\<open>Accept\<close> blocks) and the result of its \<^verbatim>\<open>Close\<close>.
\<close>

record 'r Listener =
  accepts :: "(error + 'r Conn) list"
  close_result :: "error option"

text \<open>
  The \<^verbatim>\<open>Server\<close> struct. \<^verbatim>\<open>Handler\<close> is an interface value and the other four are
  pointers: each may be nil. The handler type is the parameter \<open>'h\<close>.
\<close>

record ('h, 'r) Server =
  endpointURL :: string
  Handler :: "'h option"
  Ack :: "Acknowledge option"
  l :: "'r Listener option"
  cfg :: "Config option"
  sessionCfg :: "SessionConfig option"

record 'r Request =
  ReqMsg :: "'r Message option"

record 'r ResponseWriter =
  Msg :: "'r Message option"

text \<open>The argument of a \<^verbatim>\<open>debug.Printf\<close> call, after the connection id.\<close>

datatype 'r logarg =
    ErrArg error
  | MsgArg "'r Message"
  | TypeArg "'r payload"

text \<open>
  The calls the server makes on its collaborators. \<open>ServeOPCUA\<close> is the call of the
  \<^verbatim>\<open>Handler\<close> interface's method.
\<close>

datatype ('h, 'r) event =
    Listen string "Acknowledge option"
  | Accept
  | NewSecureChannel string uint32 "Config option"
  | ConnClose uint32
  | Go uint32 "'r SecureChannel"
  | Receive uint32
  | Printf string uint32 "'r logarg"
  | ChanClose uint32
  | SendResponse uint32 "'r payload" response
  | ServeOPCUA 'h "'r ResponseWriter" "'r Request"

datatype 'a outcome = Returned 'a | Blocked | Panic

text \<open>
  What a call finds around it. From outside the sources: \<^verbatim>\<open>uacp.Listen\<close>, the two
  default configurations, and \<^verbatim>\<open>ApplyConfig\<close> over options of type \<open>'o\<close>. From the
  package itself: the current value of the exported variable \<^verbatim>\<open>DefaultAck\<close>, a pointer
  that any importer may have redirected (to nil as well) or written through since the
  package was initialised. \<^verbatim>\<open>ListenAndServe\<close> reads the variable when it is called and
  hands a pointer, which may be nil, to \<^verbatim>\<open>uacp.Listen\<close>.
\<close>

record ('r, 'o) env =
  uacp_Listen :: "string \<Rightarrow> Acknowledge option \<Rightarrow> error + 'r Listener"
  DefaultAck :: "Acknowledge option"
  DefaultServerConfig :: Config
  DefaultServerSessionConfig :: SessionConfig
  ApplyConfig :: "Config \<Rightarrow> SessionConfig \<Rightarrow> 'o list \<Rightarrow> Config \<times> SessionConfig"

subsection \<open>Operations\<close>

text \<open>
  The initialiser of the package variable \<^verbatim>\<open>DefaultAck\<close>: what the variable points to
  as long as nothing has assigned to it. \<^verbatim>\<open>1 << 16\<close> is the shift it is written as.
\<close>

definition DefaultAck_initial :: Acknowledge where
  "DefaultAck_initial =
     \<lparr>ReceiveBufSize = 0xffff, SendBufSize = 0xffff,
      MaxMessageSize = push_bit 16 1, MaxChunkCount = 256\<rparr>"

definition NewServer :: "('r, 'o) env \<Rightarrow> string \<Rightarrow> 'o list \<Rightarrow> ('h, 'r) Server" where
  "NewServer e endpoint opts =
     (let (c, sc) = ApplyConfig e (DefaultServerConfig e) (DefaultServerSessionConfig e) opts
      in \<lparr>endpointURL = endpoint, Handler = None, Ack = None, l = None,
          cfg = Some c, sessionCfg = Some sc\<rparr>)"

text \<open>
  The literal \<^verbatim>\<open>&ua.ApplicationDescription{...}\<close> that both built-in handlers build
  from the session configuration; reading through a nil pointer panics.
\<close>

definition describe :: "('h, 'r) Server \<Rightarrow> ApplicationDescription option" where
  "describe s =
     (case sessionCfg s of
        None \<Rightarrow> None
      | Some sc \<Rightarrow>
          (case ClientDescription sc of
             None \<Rightarrow> None
           | Some cd \<Rightarrow>
               Some \<lparr>ApplicationURI = ApplicationURI cd,
                     ProductURI = ProductURI cd,
                     ApplicationName = ApplicationName cd,
                     ApplicationType = ApplicationType cd,
                     GatewayServerURI = [],
                     DiscoveryProfileURI = [],
                     DiscoveryURLs = [endpointURL s]\<rparr>))"

definition handleFindServers ::
  "('h, 'r) Server \<Rightarrow> uint32 \<Rightarrow> 'r \<Rightarrow> ('h, 'r) event list \<times> unit outcome" where
  "handleFindServers s connID req =
     (case describe s of
        None \<Rightarrow> ([Printf ''conn %d: handle %T'' connID (TypeArg (FindServersRequest req))], Panic)
      | Some d \<Rightarrow>
          ([Printf ''conn %d: handle %T'' connID (TypeArg (FindServersRequest req)),
            SendResponse connID (FindServersRequest req) (FindServersResponse [d])],
           Returned ()))"

definition handleGetEndpoints ::
  "('h, 'r) Server \<Rightarrow> uint32 \<Rightarrow> 'r \<Rightarrow> ('h, 'r) event list \<times> unit outcome" where
  "handleGetEndpoints s connID req =
     (case describe s of
        None \<Rightarrow> ([Printf ''conn %d: handle %T'' connID (TypeArg (GetEndpointsRequest req))], Panic)
      | Some d \<Rightarrow>
          (case cfg s of
             None \<Rightarrow>
               ([Printf ''conn %d: handle %T'' connID (TypeArg (GetEndpointsRequest req))], Panic)
           | Some c \<Rightarrow>
               ([Printf ''conn %d: handle %T'' connID (TypeArg (GetEndpointsRequest req)),
                 SendResponse connID (GetEndpointsRequest req)
                   (GetEndpointsResponse
                     [\<lparr>EndpointURL = endpointURL s,
                       EndpointServer = Some d,
                       ServerCertificate = [],
                       EndpointSecurityMode = SecurityMode c,
                       EndpointSecurityPolicyURI = SecurityPolicyURI c,
                       UserIdentityTokens = [],
                       TransportProfileURI = [],
                       SecurityLevel = 0\<rparr>])],
                Returned ())))"

text \<open>The type switch of \<^verbatim>\<open>handle\<close>.\<close>

definition dispatch ::
  "('h, 'r) Server \<Rightarrow> uint32 \<Rightarrow> 'r Message \<Rightarrow> ('h, 'r) event list \<times> unit outcome" where
  "dispatch s connID msg =
     (case V msg of
        FindServersRequest req \<Rightarrow> handleFindServers s connID req
      | GetEndpointsRequest req \<Rightarrow> handleGetEndpoints s connID req
      | OtherType req \<Rightarrow>
          ([Printf ''conn %d: cannot handle %T'' connID (TypeArg (OtherType req))], Returned ()))"

text \<open>
  The loop of \<^verbatim>\<open>handle\<close>, one equation per result of \<^verbatim>\<open>Receive\<close>. A panic in a
  built-in handler ends the loop.
\<close>

fun handle ::
  "('h, 'r) Server \<Rightarrow> uint32 \<Rightarrow> 'r SecureChannel \<Rightarrow> ('h, 'r) event list \<times> unit outcome" where
  "handle s connID [] = ([Receive connID], Blocked)"
| "handle s connID (msg # sechan) =
     (case Err msg of
        Some err \<Rightarrow>
          ([Receive connID, Printf ''conn %d: recv %#v'' connID (ErrArg err), ChanClose connID],
           Returned ())
      | None \<Rightarrow>
          (case dispatch s connID msg of
             (evs, Returned u) \<Rightarrow>
               (case handle s connID sechan of
                  (evs', out) \<Rightarrow>
                    ([Receive connID, Printf ''conn %d: recv %#v'' connID (MsgArg msg)]
                       @ evs @ evs', out))
           | (evs, out) \<Rightarrow>
               ([Receive connID, Printf ''conn %d: recv %#v'' connID (MsgArg msg)] @ evs, out)))"

text \<open>
  The loop of \<^verbatim>\<open>serve\<close>, one equation per result of \<^verbatim>\<open>Accept\<close>. The handler \<open>h\<close>
  is a parameter, as in the source, and as in the source the body does not use it.
\<close>

fun serve_loop ::
  "('h, 'r) Server \<Rightarrow> 'h option \<Rightarrow> (error + 'r Conn) list \<Rightarrow> ('h, 'r) event list \<times> error outcome"
  where
  "serve_loop s h [] = ([Accept], Blocked)"
| "serve_loop s h (Inl err # rest) = ([Accept], Returned err)"
| "serve_loop s h (Inr c # rest) =
     (case secure c of
        Inl err \<Rightarrow>
          ([Accept, NewSecureChannel (endpointURL s) (ID c) (cfg s), ConnClose (ID c)],
           Returned err)
      | Inr sechan \<Rightarrow>
          (case serve_loop s h rest of
             (evs, out) \<Rightarrow>
               ([Accept, NewSecureChannel (endpointURL s) (ID c) (cfg s), Go (ID c) sechan]
                  @ evs, out)))"

definition serve ::
  "('h, 'r) Server \<Rightarrow> 'h option \<Rightarrow> ('h, 'r) event list \<times> error outcome" where
  "serve s h =
     (case l s of
        None \<Rightarrow> ([], Panic)
      | Some li \<Rightarrow> serve_loop s h (accepts li))"

definition ListenAndServe ::
  "('r, 'o) env \<Rightarrow> ('h, 'r) Server \<Rightarrow> 'h option \<Rightarrow>
     ('h, 'r) event list \<times> error outcome \<times> ('h, 'r) Server" where
  "ListenAndServe e s h =
     (let h = (case h of None \<Rightarrow> Handler s | Some x \<Rightarrow> Some x);
          ack = (case Ack s of None \<Rightarrow> DefaultAck e | Some a \<Rightarrow> Some a)
      in case uacp_Listen e (endpointURL s) ack of
           Inl err \<Rightarrow> ([Listen (endpointURL s) ack], Returned err, s)
         | Inr li \<Rightarrow>
             (let s = s\<lparr>l := Some li\<rparr>;
                  s = s\<lparr>cfg := Some (DefaultServerConfig e)\<rparr>
              in case serve s h of
                   (evs, out) \<Rightarrow> (Listen (endpointURL s) ack # evs, out, s)))"

text \<open>
  \<^verbatim>\<open>Close\<close> calls the listener's \<^verbatim>\<open>Close\<close> through the pointer \<^verbatim>\<open>s.l\<close>; the method of
  \<^verbatim>\<open>uacp.Listener\<close> reads its receiver, so a nil \<^verbatim>\<open>s.l\<close> panics.
\<close>

definition Close :: "('h, 'r) Server \<Rightarrow> error option outcome" where
  "Close s =
     (case l s of
        None \<Rightarrow> Panic
      | Some li \<Rightarrow> Returned (close_result li))"

definition Send :: "'r ResponseWriter \<Rightarrow> 'r Message option \<Rightarrow> 'r ResponseWriter" where
  "Send w m = w\<lparr>Msg := m\<rparr>"

text \<open>The goroutines that a trace of \<^verbatim>\<open>serve\<close> starts: each runs \<^verbatim>\<open>handle\<close>.\<close>

fun spawned :: "('h, 'r) event list \<Rightarrow> (uint32 \<times> 'r SecureChannel) list" where
  "spawned [] = []"
| "spawned (Go connID sechan # evs) = (connID, sechan) # spawned evs"
| "spawned (ev # evs) = spawned evs"

fun handler_calls :: "('h, 'r) event list \<Rightarrow> nat" where
  "handler_calls [] = 0"
| "handler_calls (ServeOPCUA h w r # evs) = Suc (handler_calls evs)"
| "handler_calls (ev # evs) = handler_calls evs"

fun responses :: "('h, 'r) event list \<Rightarrow> ('r payload \<times> response) list" where
  "responses [] = []"
| "responses (SendResponse connID req resp # evs) = (req, resp) # responses evs"
| "responses (ev # evs) = responses evs"

fun accept_calls :: "('h, 'r) event list \<Rightarrow> nat" where
  "accept_calls [] = 0"
| "accept_calls (Accept # evs) = Suc (accept_calls evs)"
| "accept_calls (ev # evs) = accept_calls evs"

subsection \<open>Traces of whole runs\<close>

text \<open>
  The events of the rounds of \<^verbatim>\<open>handle\<close> that receive the messages \<open>msgs\<close> one
  after the other: the \<^verbatim>\<open>Receive\<close>, the log line, then what the type switch does.
\<close>

definition received :: "('h, 'r) Server \<Rightarrow> uint32 \<Rightarrow> 'r Message list \<Rightarrow> ('h, 'r) event list" where
  "received s connID msgs =
     concat (map (\<lambda>m. [Receive connID, Printf ''conn %d: recv %#v'' connID (MsgArg m)]
                          @ fst (dispatch s connID m)) msgs)"

text \<open>
  The events of the rounds of \<^verbatim>\<open>serve\<close> that accept the connections \<open>cs\<close> (each
  an id and the secure channel opened on it) one after the other.
\<close>

definition accepted :: "('h, 'r) Server \<Rightarrow> (uint32 \<times> 'r SecureChannel) list \<Rightarrow> ('h, 'r) event list" where
  "accepted s cs =
     concat (map (\<lambda>(i, ch). [Accept, NewSecureChannel (endpointURL s) i (cfg s), Go i ch]) cs)"

text \<open>An \<^verbatim>\<open>Accept\<close> result: a connection on which the secure channel opens.\<close>

definition opened :: "uint32 \<times> 'r SecureChannel \<Rightarrow> error + 'r Conn" where
  "opened = (\<lambda>(i, ch). Inr \<lparr>ID = i, secure = Inr ch\<rparr>)"

subsection \<open>A server and an environment to run\<close>

text \<open>
  A concrete environment: \<^verbatim>\<open>Listen\<close> succeeds on one endpoint URL only, and an option
  is a security mode that \<^verbatim>\<open>ApplyConfig\<close> stores into the configuration.
\<close>

definition demo_app :: ApplicationDescription where
  "demo_app =
     \<lparr>ApplicationURI = ''urn:demo'', ProductURI = ''urn:product'', ApplicationName = ''demo'',
      ApplicationType = 0, GatewayServerURI = [], DiscoveryProfileURI = [],
      DiscoveryURLs = []\<rparr>"

definition demo_env :: "nat Listener \<Rightarrow> (nat, nat) env" where
  "demo_env li =
     \<lparr>uacp_Listen = (\<lambda>url ack. if url = ''opc.tcp://localhost:4840'' then Inr li
                               else Inl (Error ''listen'')),
      DefaultAck = Some DefaultAck_initial,
      DefaultServerConfig = \<lparr>SecurityMode = 1, SecurityPolicyURI = ''None''\<rparr>,
      DefaultServerSessionConfig = \<lparr>ClientDescription = Some demo_app\<rparr>,
      ApplyConfig = (\<lambda>c sc opts. (foldl (\<lambda>c m. c\<lparr>SecurityMode := m\<rparr>) c opts, sc))\<rparr>"

definition demo_server :: "(nat, nat) Server" where
  "demo_server =
     \<lparr>endpointURL = ''opc.tcp://localhost:4840'', Handler = None, Ack = None, l = None,
      cfg = Some \<lparr>SecurityMode = 1, SecurityPolicyURI = ''None''\<rparr>,
      sessionCfg = Some \<lparr>ClientDescription = Some demo_app\<rparr>\<rparr>"

definition demo_listening :: "(error + nat Conn) list \<Rightarrow> (nat, nat) Server" where
  "demo_listening as = demo_server\<lparr>l := Some \<lparr>accepts = as, close_result = None\<rparr>\<rparr>"

definition demo_find :: "nat Message" where
  "demo_find = \<lparr>V = FindServersRequest 9, Err = None\<rparr>"

definition demo_other :: "nat Message" where
  "demo_other = \<lparr>V = OtherType 5, Err = None\<rparr>"

definition demo_failed :: "nat Message" where
  "demo_failed = \<lparr>V = OtherType 0, Err = Some (Error ''EOF'')\<rparr>"

section \<open>Properties\<close>

subsection \<open>The loops, round by round\<close>

lemma handle_append:
  "\<forall>m\<in>set pre. Err m = None \<and> snd (dispatch s connID m) = Returned () \<Longrightarrow>
   handle s connID (pre @ rest) =
     (received s connID pre @ fst (handle s connID rest), snd (handle s connID rest))"
  by (induction pre) (auto simp: received_def split: prod.splits outcome.splits)

lemma serve_loop_append:
  "serve_loop s h (map opened cs @ rest) =
     (accepted s cs @ fst (serve_loop s h rest), snd (serve_loop s h rest))"
  by (induction cs) (auto simp: accepted_def opened_def split: prod.splits)

lemma ListenAndServe_listening:
  assumes "uacp_Listen e (endpointURL s) (case Ack s of None \<Rightarrow> DefaultAck e | Some a \<Rightarrow> Some a) = Inr li"
  shows "ListenAndServe e s h =
     (Listen (endpointURL s) (case Ack s of None \<Rightarrow> DefaultAck e | Some a \<Rightarrow> Some a)
        # fst (serve_loop (s\<lparr>l := Some li, cfg := Some (DefaultServerConfig e)\<rparr>)
                (case h of None \<Rightarrow> Handler s | Some x \<Rightarrow> Some x) (accepts li)),
      snd (serve_loop (s\<lparr>l := Some li, cfg := Some (DefaultServerConfig e)\<rparr>)
                (case h of None \<Rightarrow> Handler s | Some x \<Rightarrow> Some x) (accepts li)),
      s\<lparr>l := Some li, cfg := Some (DefaultServerConfig e)\<rparr>)"
  using assms by (simp add: ListenAndServe_def serve_def Let_def split: prod.splits)

lemma handler_calls_append: "handler_calls (xs @ ys) = handler_calls xs + handler_calls ys"
  by (induction xs rule: handler_calls.induct) auto

lemma handler_calls_dispatch: "handler_calls (fst (dispatch s connID m)) = 0"
  by (auto simp: dispatch_def handleFindServers_def handleGetEndpoints_def
      split: payload.splits option.splits)

lemma handler_calls_handle: "handler_calls (fst (handle s connID sechan)) = 0"
proof (induction sechan)
  case Nil
  show ?case by simp
next
  case (Cons m sechan)
  obtain evs out where d: "dispatch s connID m = (evs, out)"
    by (cases "dispatch s connID m")
  with handler_calls_dispatch [of s connID m] have e: "handler_calls evs = 0"
    by simp
  obtain evs' out' where h: "handle s connID sechan = (evs', out')"
    by (cases "handle s connID sechan")
  with Cons.IH have e': "handler_calls evs' = 0"
    by simp
  show ?case
    by (simp add: d h e e' handler_calls_append split: option.splits outcome.splits)
qed

lemma handler_calls_serve_loop: "handler_calls (fst (serve_loop s h as)) = 0"
  by (induction s h as rule: serve_loop.induct) (auto split: sum.splits prod.splits)

text \<open>
  No trace of the server has a call of the \<^verbatim>\<open>Handler\<close> interface: \<^verbatim>\<open>ListenAndServe\<close>
  selects the handler and passes it to \<^verbatim>\<open>serve\<close>, which does not use it, and
  \<^verbatim>\<open>handle\<close> has no handler to call.
\<close>

lemma handler_calls_ListenAndServe:
  "handler_calls (fst (ListenAndServe e s h)) = 0"
proof (cases "uacp_Listen e (endpointURL s)
    (case Ack s of None \<Rightarrow> DefaultAck e | Some a \<Rightarrow> Some a)")
  case (Inl err)
  then show ?thesis
    by (simp add: ListenAndServe_def Let_def)
next
  case (Inr li)
  show ?thesis
    by (simp add: ListenAndServe_listening [OF Inr] handler_calls_serve_loop)
qed

lemma spawned_append: "spawned (xs @ ys) = spawned xs @ spawned ys"
  by (induction xs rule: spawned.induct) auto

lemma spawned_accepted: "spawned (accepted s cs) = cs"
  by (induction cs) (auto simp: accepted_def)

lemma accept_calls_append: "accept_calls (xs @ ys) = accept_calls xs + accept_calls ys"
  by (induction xs rule: accept_calls.induct) auto

lemma accept_calls_accepted: "accept_calls (accepted s cs) = length cs"
  by (induction cs) (auto simp: accepted_def)

subsection \<open>The dispatch loop\<close>




text \<open>
  C4. A successfully received message of a type the dispatch loop does not recognize is
  logged and dropped: its round consists of the \<^verbatim>\<open>Receive\<close> and two log lines, with no
  response and no close of the channel, and the loop continues on the rest of the
  channel exactly as \<^verbatim>\<open>handle\<close> runs on it.
\<close>

theorem handle_unrecognized:
  assumes "\<forall>m\<in>set pre. Err m = None \<and> snd (dispatch s connID m) = Returned ()"
    and "Err msg = None" and "V msg = OtherType x"
  shows "handle s connID (pre @ msg # rest) =
     (received s connID pre @
        [Receive connID, Printf ''conn %d: recv %#v'' connID (MsgArg msg),
         Printf ''conn %d: cannot handle %T'' connID (TypeArg (V msg))] @
        fst (handle s connID rest),
      snd (handle s connID rest))"
  using handle_append [OF assms(1), of "msg # rest"] assms(2,3)
  by (simp add: dispatch_def split: prod.splits)

theorem handle_unrecognized_witness:
  "Err demo_find = None \<and> snd (dispatch demo_server 1 demo_find) = Returned () \<and>
   Err demo_other = None \<and> V demo_other = OtherType 5 \<and>
   handle demo_server 1 ([demo_find] @ demo_other # [demo_find]) =
     ([Receive 1, Printf ''conn %d: recv %#v'' 1 (MsgArg demo_find),
       Printf ''conn %d: handle %T'' 1 (TypeArg (FindServersRequest 9)),
       SendResponse 1 (FindServersRequest 9)
         (FindServersResponse [demo_app\<lparr>DiscoveryURLs := [''opc.tcp://localhost:4840'']\<rparr>]),
       Receive 1, Printf ''conn %d: recv %#v'' 1 (MsgArg demo_other),
       Printf ''conn %d: cannot handle %T'' 1 (TypeArg (OtherType 5)),
       Receive 1, Printf ''conn %d: recv %#v'' 1 (MsgArg demo_find),
       Printf ''conn %d: handle %T'' 1 (TypeArg (FindServersRequest 9)),
       SendResponse 1 (FindServersRequest 9)
         (FindServersResponse [demo_app\<lparr>DiscoveryURLs := [''opc.tcp://localhost:4840'']\<rparr>]),
       Receive 1],
      Blocked)"
proof -
  have pre: "\<forall>m\<in>set [demo_find]. Err m = None \<and> snd (dispatch demo_server 1 m) = Returned ()"
    by (simp add: demo_find_def dispatch_def handleFindServers_def describe_def demo_server_def)
  have ok: "Err demo_other = None" and ty: "V demo_other = OtherType 5"
    by (simp_all add: demo_other_def)
  from handle_unrecognized [OF pre ok ty, of "[demo_find]"] pre ok ty show ?thesis
    by (simp add: received_def dispatch_def handleFindServers_def describe_def demo_server_def
        demo_find_def demo_other_def demo_app_def)
qed

text \<open>
  C5. When a \<^verbatim>\<open>Receive\<close> yields an error, the loop logs the error, closes the secure
  channel and returns: nothing that the channel would deliver afterwards (\<open>rest\<close>) is
  received or dispatched.
\<close>

theorem handle_receive_error:
  assumes "\<forall>m\<in>set pre. Err m = None \<and> snd (dispatch s connID m) = Returned ()"
    and "Err msg = Some err"
  shows "handle s connID (pre @ msg # rest) =
     (received s connID pre @
        [Receive connID, Printf ''conn %d: recv %#v'' connID (ErrArg err), ChanClose connID],
      Returned ())"
  using handle_append [OF assms(1), of "msg # rest"] assms(2) by simp

theorem handle_receive_error_witness:
  "Err demo_other = None \<and> snd (dispatch demo_server 1 demo_other) = Returned () \<and>
   Err demo_failed = Some (Error ''EOF'') \<and>
   handle demo_server 1 ([demo_other] @ demo_failed # [demo_find]) =
     ([Receive 1, Printf ''conn %d: recv %#v'' 1 (MsgArg demo_other),
       Printf ''conn %d: cannot handle %T'' 1 (TypeArg (OtherType 5)),
       Receive 1, Printf ''conn %d: recv %#v'' 1 (ErrArg (Error ''EOF'')), ChanClose 1],
      Returned ())"
proof -
  have pre: "\<forall>m\<in>set [demo_other]. Err m = None \<and> snd (dispatch demo_server 1 m) = Returned ()"
    by (simp add: demo_other_def dispatch_def)
  have err: "Err demo_failed = Some (Error ''EOF'')"
    by (simp add: demo_failed_def)
  from handle_receive_error [OF pre err, of "[demo_find]"] pre err show ?thesis
    by (simp add: received_def dispatch_def demo_other_def)
qed

text \<open>
  C8. For a FindServers request that the loop dispatches, every response sent back has
  exactly one server entry, whose discovery URLs are the list of the server's endpoint
  URL alone; at most one response is sent, and exactly one when the session
  configuration and its client description are present.
\<close>

theorem dispatch_FindServers:
  assumes "V msg = FindServersRequest req"
  shows "(\<forall>x\<in>set (responses (fst (dispatch s connID msg))).
            \<exists>d. x = (FindServersRequest req, FindServersResponse [d])
              \<and> DiscoveryURLs d = [endpointURL s])
     \<and> length (responses (fst (dispatch s connID msg))) \<le> 1
     \<and> (sessionCfg s = Some sc \<and> ClientDescription sc = Some cd \<longrightarrow>
          responses (fst (dispatch s connID msg)) =
            [(FindServersRequest req,
              FindServersResponse
                [\<lparr>ApplicationURI = ApplicationURI cd, ProductURI = ProductURI cd,
                  ApplicationName = ApplicationName cd, ApplicationType = ApplicationType cd,
                  GatewayServerURI = [], DiscoveryProfileURI = [],
                  DiscoveryURLs = [endpointURL s]\<rparr>])])"
  using assms
  by (auto simp: dispatch_def handleFindServers_def describe_def split: option.splits)

theorem dispatch_FindServers_witness:
  "V demo_find = FindServersRequest 9 \<and>
   set (responses (fst (dispatch demo_server 1 demo_find))) =
     {(FindServersRequest 9,
       FindServersResponse [demo_app\<lparr>DiscoveryURLs := [''opc.tcp://localhost:4840'']\<rparr>])} \<and>
   DiscoveryURLs (demo_app\<lparr>DiscoveryURLs := [''opc.tcp://localhost:4840'']\<rparr>)
     = [endpointURL demo_server] \<and>
   length (responses (fst (dispatch demo_server 1 demo_find))) \<le> 1 \<and>
   sessionCfg demo_server = Some \<lparr>ClientDescription = Some demo_app\<rparr> \<and>
   ClientDescription \<lparr>ClientDescription = Some demo_app\<rparr> = Some demo_app \<and>
   responses (fst (dispatch demo_server 1 demo_find)) =
     [(FindServersRequest 9,
       FindServersResponse [demo_app\<lparr>DiscoveryURLs := [''opc.tcp://localhost:4840'']\<rparr>])]"
proof -
  have ty: "V demo_find = FindServersRequest 9"
    by (simp add: demo_find_def)
  have sc: "sessionCfg demo_server = Some \<lparr>ClientDescription = Some demo_app\<rparr>"
    by (simp add: demo_server_def)
  from dispatch_FindServers [OF ty, of demo_server 1 "\<lparr>ClientDescription = Some demo_app\<rparr>" demo_app]
    ty sc
  show ?thesis
    by (simp add: demo_server_def demo_app_def)
qed

subsection \<open>The accept loop\<close>

text \<open>
  Two connections are waiting; the secure channel cannot be opened on the first. The
  server closes that connection and \<^verbatim>\<open>ListenAndServe\<close> returns the error: the
  second connection is never accepted.
\<close>

theorem serve_stops_on_channel_failure_counterexample:
  "ListenAndServe
     (demo_env \<lparr>accepts = [Inr \<lparr>ID = 1, secure = Inl (Error ''rejected'')\<rparr>,
                            Inr \<lparr>ID = 2, secure = Inr [demo_find]\<rparr>],
                close_result = None\<rparr>)
     demo_server None =
     ([Listen ''opc.tcp://localhost:4840'' (Some DefaultAck_initial), Accept,
       NewSecureChannel ''opc.tcp://localhost:4840'' 1
         (Some \<lparr>SecurityMode = 1, SecurityPolicyURI = ''None''\<rparr>),
       ConnClose 1],
      Returned (Error ''rejected''),
      demo_listening [Inr \<lparr>ID = 1, secure = Inl (Error ''rejected'')\<rparr>,
                      Inr \<lparr>ID = 2, secure = Inr [demo_find]\<rparr>])"
  by (simp add: ListenAndServe_def serve_def demo_env_def demo_server_def demo_listening_def
      Let_def)

text \<open>
  C2, as the code has it. When the secure channel cannot be opened on an accepted
  connection, the server closes that transport connection, starts no handler loop for
  it, and the accept loop ends: \<^verbatim>\<open>ListenAndServe\<close> returns that error to its caller
  and accepts no further connection. The loops started before are those of the
  connections accepted before.
\<close>

theorem ListenAndServe_channel_failure:
  assumes "uacp_Listen e (endpointURL s) (case Ack s of None \<Rightarrow> DefaultAck e | Some a \<Rightarrow> Some a) = Inr li"
    and "accepts li = map opened cs @ Inr c # rest"
    and "secure c = Inl err"
  shows "ListenAndServe e s h =
     (Listen (endpointURL s) (case Ack s of None \<Rightarrow> DefaultAck e | Some a \<Rightarrow> Some a)
        # accepted (s\<lparr>l := Some li, cfg := Some (DefaultServerConfig e)\<rparr>) cs
        @ [Accept, NewSecureChannel (endpointURL s) (ID c) (Some (DefaultServerConfig e)),
           ConnClose (ID c)],
      Returned err,
      s\<lparr>l := Some li, cfg := Some (DefaultServerConfig e)\<rparr>)
     \<and> spawned (fst (ListenAndServe e s h)) = cs
     \<and> accept_calls (fst (ListenAndServe e s h)) = Suc (length cs)"
  by (simp add: ListenAndServe_listening [OF assms(1)] assms(2,3) serve_loop_append
      spawned_append spawned_accepted accept_calls_append accept_calls_accepted)

theorem ListenAndServe_channel_failure_witness:
  "uacp_Listen
     (demo_env \<lparr>accepts = map opened [(1, [demo_find])]
                  @ Inr \<lparr>ID = 2, secure = Inl (Error ''rejected'')\<rparr> # [opened (3, [])],
                close_result = None\<rparr>)
     (endpointURL demo_server) (Some DefaultAck_initial) =
     Inr \<lparr>accepts = map opened [(1, [demo_find])]
                  @ Inr \<lparr>ID = 2, secure = Inl (Error ''rejected'')\<rparr> # [opened (3, [])],
          close_result = None\<rparr> \<and>
   secure \<lparr>ID = 2, secure = Inl (Error ''rejected'') :: error + nat SecureChannel\<rparr>
     = Inl (Error ''rejected'') \<and>
   ListenAndServe
     (demo_env \<lparr>accepts = map opened [(1, [demo_find])]
                  @ Inr \<lparr>ID = 2, secure = Inl (Error ''rejected'')\<rparr> # [opened (3, [])],
                close_result = None\<rparr>)
     demo_server None =
     ([Listen ''opc.tcp://localhost:4840'' (Some DefaultAck_initial), Accept,
       NewSecureChannel ''opc.tcp://localhost:4840'' 1
         (Some \<lparr>SecurityMode = 1, SecurityPolicyURI = ''None''\<rparr>),
       Go 1 [demo_find], Accept,
       NewSecureChannel ''opc.tcp://localhost:4840'' 2
         (Some \<lparr>SecurityMode = 1, SecurityPolicyURI = ''None''\<rparr>),
       ConnClose 2],
      Returned (Error ''rejected''),
      demo_listening (map opened [(1, [demo_find])]
                  @ Inr \<lparr>ID = 2, secure = Inl (Error ''rejected'')\<rparr> # [opened (3, [])])) \<and>
   spawned (fst (ListenAndServe
     (demo_env \<lparr>accepts = map opened [(1, [demo_find])]
                  @ Inr \<lparr>ID = 2, secure = Inl (Error ''rejected'')\<rparr> # [opened (3, [])],
                close_result = None\<rparr>)
     demo_server None)) = [(1, [demo_find])] \<and>
   accept_calls (fst (ListenAndServe
     (demo_env \<lparr>accepts = map opened [(1, [demo_find])]
                  @ Inr \<lparr>ID = 2, secure = Inl (Error ''rejected'')\<rparr> # [opened (3, [])],
                close_result = None\<rparr>)
     demo_server None)) = 2"
proof -
  let ?c = "\<lparr>ID = 2, secure = Inl (Error ''rejected'')\<rparr> :: nat Conn"
  let ?li = "\<lparr>accepts = map opened [(1, [demo_find])] @ Inr ?c # [opened (3, [])],
              close_result = None\<rparr> :: nat Listener"
  have li: "uacp_Listen (demo_env ?li) (endpointURL demo_server)
      (case Ack demo_server of None \<Rightarrow> DefaultAck (demo_env ?li) | Some a \<Rightarrow> Some a) = Inr ?li"
    by (simp add: demo_env_def demo_server_def)
  have acc: "accepts ?li = map opened [(1, [demo_find])] @ Inr ?c # [opened (3, [])]"
    by simp
  have bad: "secure ?c = Inl (Error ''rejected'')"
    by simp
  from ListenAndServe_channel_failure [OF li acc bad, of None] li show ?thesis
    by (simp add: accepted_def demo_env_def demo_server_def demo_listening_def)
qed

text \<open>
  C6. When \<^verbatim>\<open>Accept\<close> returns an error, after the connections \<open>cs\<close> were accepted,
  \<^verbatim>\<open>ListenAndServe\<close> returns that error; the handler loops started are exactly those
  of \<open>cs\<close>, whatever the listener would have accepted afterwards (\<open>rest\<close>).
\<close>

theorem ListenAndServe_accept_error:
  assumes "uacp_Listen e (endpointURL s) (case Ack s of None \<Rightarrow> DefaultAck e | Some a \<Rightarrow> Some a) = Inr li"
    and "accepts li = map opened cs @ Inl err # rest"
  shows "ListenAndServe e s h =
     (Listen (endpointURL s) (case Ack s of None \<Rightarrow> DefaultAck e | Some a \<Rightarrow> Some a)
        # accepted (s\<lparr>l := Some li, cfg := Some (DefaultServerConfig e)\<rparr>) cs @ [Accept],
      Returned err,
      s\<lparr>l := Some li, cfg := Some (DefaultServerConfig e)\<rparr>)
     \<and> spawned (fst (ListenAndServe e s h)) = cs"
  by (simp add: ListenAndServe_listening [OF assms(1)] assms(2) serve_loop_append
      spawned_append spawned_accepted)

theorem ListenAndServe_accept_error_witness:
  "uacp_Listen
     (demo_env \<lparr>accepts = map opened [(1, [demo_find])] @ Inl (Error ''closed'') # [opened (2, [])],
                close_result = None\<rparr>)
     (endpointURL demo_server) (Some DefaultAck_initial) =
     Inr \<lparr>accepts = map opened [(1, [demo_find])] @ Inl (Error ''closed'') # [opened (2, [])],
          close_result = None\<rparr> \<and>
   ListenAndServe
     (demo_env \<lparr>accepts = map opened [(1, [demo_find])] @ Inl (Error ''closed'') # [opened (2, [])],
                close_result = None\<rparr>)
     demo_server None =
     ([Listen ''opc.tcp://localhost:4840'' (Some DefaultAck_initial), Accept,
       NewSecureChannel ''opc.tcp://localhost:4840'' 1
         (Some \<lparr>SecurityMode = 1, SecurityPolicyURI = ''None''\<rparr>),
       Go 1 [demo_find], Accept],
      Returned (Error ''closed''),
      demo_listening (map opened [(1, [demo_find])] @ Inl (Error ''closed'') # [opened (2, [])])) \<and>
   spawned (fst (ListenAndServe
     (demo_env \<lparr>accepts = map opened [(1, [demo_find])] @ Inl (Error ''closed'') # [opened (2, [])],
                close_result = None\<rparr>)
     demo_server None)) = [(1, [demo_find])]"
proof -
  let ?li = "\<lparr>accepts = map opened [(1, [demo_find])] @ Inl (Error ''closed'') # [opened (2, [])],
              close_result = None\<rparr> :: nat Listener"
  have li: "uacp_Listen (demo_env ?li) (endpointURL demo_server)
      (case Ack demo_server of None \<Rightarrow> DefaultAck (demo_env ?li) | Some a \<Rightarrow> Some a) = Inr ?li"
    by (simp add: demo_env_def demo_server_def)
  have acc: "accepts ?li = map opened [(1, [demo_find])] @ Inl (Error ''closed'') # [opened (2, [])]"
    by simp
  from ListenAndServe_accept_error [OF li acc, of None] li show ?thesis
    by (simp add: accepted_def demo_env_def demo_server_def demo_listening_def)
qed

subsection \<open>Configuration\<close>

text \<open>
  C3, evaluated. A server is built with an option that sets the security mode to 3;
  \<^verbatim>\<open>NewServer\<close> stores the configuration with mode 3, and \<^verbatim>\<open>ListenAndServe\<close>
  then opens the secure channel of the accepted connection with the default
  configuration (mode 1): the assignment \<^verbatim>\<open>s.cfg = DefaultServerConfig()\<close> has
  replaced the one built from the options.
\<close>

theorem ListenAndServe_discards_options:
  "cfg (NewServer (demo_env \<lparr>accepts = [opened (1, [])], close_result = None\<rparr>)
          ''opc.tcp://localhost:4840'' [3] :: (nat, nat) Server)
     = Some \<lparr>SecurityMode = 3, SecurityPolicyURI = ''None''\<rparr> \<and>
   fst (ListenAndServe (demo_env \<lparr>accepts = [opened (1, [])], close_result = None\<rparr>)
          (NewServer (demo_env \<lparr>accepts = [opened (1, [])], close_result = None\<rparr>)
             ''opc.tcp://localhost:4840'' [3] :: (nat, nat) Server) None) =
     [Listen ''opc.tcp://localhost:4840'' (Some DefaultAck_initial), Accept,
      NewSecureChannel ''opc.tcp://localhost:4840'' 1
        (Some \<lparr>SecurityMode = 1, SecurityPolicyURI = ''None''\<rparr>),
      Go 1 [], Accept]"
  by (simp add: NewServer_def ListenAndServe_def serve_def demo_env_def opened_def Let_def)

text \<open>
  C7. When the server's \<^verbatim>\<open>Ack\<close> field is nil, \<^verbatim>\<open>ListenAndServe\<close> listens with what
  the package variable \<^verbatim>\<open>DefaultAck\<close> holds at the call; as long as the variable still
  holds its initial value, that is receive and send buffer size 65535, max message size
  65536 and max chunk count 256.
\<close>

theorem ListenAndServe_default_ack:
  assumes "Ack s = None"
  shows "(\<exists>evs. fst (ListenAndServe e s h) = Listen (endpointURL s) (DefaultAck e) # evs) \<and>
     (DefaultAck e = Some DefaultAck_initial \<longrightarrow>
        (\<exists>evs. fst (ListenAndServe e s h) =
           Listen (endpointURL s)
             (Some \<lparr>ReceiveBufSize = 65535, SendBufSize = 65535, MaxMessageSize = 65536,
                    MaxChunkCount = 256\<rparr>) # evs))"
proof -
  have first: "\<exists>evs. fst (ListenAndServe e s h) = Listen (endpointURL s) (DefaultAck e) # evs"
    using assms
    by (auto simp: ListenAndServe_def Let_def split: sum.splits prod.splits)
  have initial: "DefaultAck_initial =
      \<lparr>ReceiveBufSize = 65535, SendBufSize = 65535, MaxMessageSize = 65536,
       MaxChunkCount = 256\<rparr>"
    by (simp add: DefaultAck_initial_def)
  from first initial show ?thesis
    by auto
qed

theorem ListenAndServe_default_ack_witness:
  "Ack demo_server = None \<and>
   DefaultAck (demo_env \<lparr>accepts = [], close_result = None\<rparr>) = Some DefaultAck_initial \<and>
   (\<exists>evs. fst (ListenAndServe (demo_env \<lparr>accepts = [], close_result = None\<rparr>) demo_server None) =
     Listen ''opc.tcp://localhost:4840''
       (Some \<lparr>ReceiveBufSize = 65535, SendBufSize = 65535, MaxMessageSize = 65536,
              MaxChunkCount = 256\<rparr>) # evs)"
proof -
  have nil: "Ack demo_server = None"
    by (simp add: demo_server_def)
  have unchanged:
    "DefaultAck (demo_env \<lparr>accepts = [], close_result = None\<rparr>) = Some DefaultAck_initial"
    by (simp add: demo_env_def)
  from ListenAndServe_default_ack
    [OF nil, of "demo_env \<lparr>accepts = [], close_result = None\<rparr>" None] nil unchanged
  show ?thesis
    by (simp add: demo_server_def)
qed

subsection \<open>Closing and the response writer\<close>

text \<open>
  C10. \<^verbatim>\<open>Close\<close> on a server fresh from \<^verbatim>\<open>NewServer\<close>, or on one whose
  \<^verbatim>\<open>ListenAndServe\<close> failed to listen, dereferences the nil listener and panics, as it
  does whenever the listener field is nil; with a listener in place it returns the result
  of the listener's \<^verbatim>\<open>Close\<close>.
\<close>

theorem Close_nil_listener:
  "Close (NewServer e endpoint opts) = Panic \<and>
   (uacp_Listen e endpoint (DefaultAck e) = Inl err \<longrightarrow>
      Close (snd (snd (ListenAndServe e (NewServer e endpoint opts) h))) = Panic) \<and>
   (l s = None \<longrightarrow> Close s = Panic) \<and>
   (l s' = Some li \<longrightarrow> Close s' = Returned (close_result li))"
  by (auto simp: Close_def NewServer_def ListenAndServe_def Let_def split: prod.splits)

theorem Close_nil_listener_witness:
  "Close (NewServer (demo_env \<lparr>accepts = [], close_result = None\<rparr>) ''opc.tcp://nowhere'' []
            :: (nat, nat) Server) = Panic \<and>
   uacp_Listen (demo_env \<lparr>accepts = [], close_result = None\<rparr>) ''opc.tcp://nowhere''
     (DefaultAck (demo_env \<lparr>accepts = [], close_result = None\<rparr>)) = Inl (Error ''listen'') \<and>
   Close (snd (snd (ListenAndServe (demo_env \<lparr>accepts = [], close_result = None\<rparr>)
     (NewServer (demo_env \<lparr>accepts = [], close_result = None\<rparr>) ''opc.tcp://nowhere'' []
        :: (nat, nat) Server) None))) = Panic \<and>
   l demo_server = None \<and> Close demo_server = Panic \<and>
   l (demo_server\<lparr>l := Some \<lparr>accepts = [], close_result = Some (Error ''closed'')\<rparr>\<rparr>)
     = Some \<lparr>accepts = [], close_result = Some (Error ''closed'')\<rparr> \<and>
   Close (demo_server\<lparr>l := Some \<lparr>accepts = [], close_result = Some (Error ''closed'')\<rparr>\<rparr>)
     = Returned (Some (Error ''closed''))"
  using Close_nil_listener
    [of "demo_env \<lparr>accepts = [], close_result = None\<rparr>" "''opc.tcp://nowhere''" "[]"
        "Error ''listen''" None demo_server
        "demo_server\<lparr>l := Some \<lparr>accepts = [], close_result = Some (Error ''closed'')\<rparr>\<rparr>"
        "\<lparr>accepts = [], close_result = Some (Error ''closed'')\<rparr>"]
  by (simp add: demo_env_def demo_server_def)

lemma Send_Msg: "Msg (Send w m) = m"
  by (simp add: Send_def)

text \<open>
  C9. After any non-empty sequence of \<^verbatim>\<open>Send\<close> calls on a ResponseWriter, the message
  it holds is the argument of the last call: the last write wins, and every earlier one
  is overwritten without error.
\<close>

theorem Send_last_write_wins:
  "ms \<noteq> [] \<Longrightarrow> Msg (foldl Send w ms) = last ms"
proof (induction ms arbitrary: w)
  case Nil
  then show ?case by simp
next
  case (Cons m ms)
  show ?case
  proof (cases ms)
    case Nil
    then show ?thesis by (simp add: Send_Msg)
  next
    case (Cons m' ms')
    with Cons.IH [of "Send w m"] show ?thesis by simp
  qed
qed

theorem Send_last_write_wins_witness:
  "[Some \<lparr>V = OtherType (1::nat), Err = None\<rparr>, None, Some \<lparr>V = FindServersRequest 2, Err = None\<rparr>] \<noteq> []
   \<and> Msg (foldl Send \<lparr>Msg = None\<rparr>
        [Some \<lparr>V = OtherType (1::nat), Err = None\<rparr>, None, Some \<lparr>V = FindServersRequest 2, Err = None\<rparr>])
     = Some \<lparr>V = FindServersRequest 2, Err = None\<rparr>"
  using Send_last_write_wins
    [of "[Some \<lparr>V = OtherType (1::nat), Err = None\<rparr>, None, Some \<lparr>V = FindServersRequest 2, Err = None\<rparr>]"
        "\<lparr>Msg = None\<rparr>"]
  by simp

end
